theory Spec2Isabelle
  imports Main "HOL-Library.AList"
begin

section \<open>The world of one noetry invocation\<close>

text \<open>
  The program is a command-line tool that works on the current directory and calls
  external tools. A run is modelled by explicit state passing over a record \<open>world\<close>:
  the facts about the host that the code reads (\<open>os.name\<close>, \<open>sys.platform\<close>), the
  files of the project directory that the code touches, what has been printed, and the
  child processes that have been started. A Python function that may raise returns a
  pair of an optional exception (\<open>None\<close>: it returned normally) and the world at the
  moment it returned or raised.
\<close>

subsection \<open>Paths\<close>

text \<open>
  A path is the list of its components below the project directory, which is the
  process's working directory (\<open>project_dir = os.getcwd()\<close> in \<open>main\<close>, the only place
  a project directory comes from). \<open>os.path.join\<close> is only ever applied to a path and
  constant relative component names, where it appends the components.
\<close>

type_synonym path = "string list"

definition project_dir :: path where
  "project_dir = []"

definition os_path_join :: "path \<Rightarrow> string \<Rightarrow> path" where
  "os_path_join p c = p @ [c]"

definition NOETRY_YML :: string where
  "NOETRY_YML = ''.noetry.yml''"

subsection \<open>Exceptions, output, child processes\<close>

datatype exn =
    FileNotFoundError
  | NameError string
  | AttributeError
  | TypeError
  | KeyError
  | IndexError
  | TomlDecodeError
  | PermissionError
  | OSError
  | UnicodeDecodeError
  | CreateFailed string

text \<open>
  What the program prints, one constructor per \<open>print\<close> call of the source:
  \<^item> \<open>CreatedVenv p\<close>: "Created virtual environment at: {venv_dir}"
  \<^item> \<open>DeletedVenv p\<close>: "Deleted virtual environment at: {venv_dir}"
  \<^item> \<open>InstalledPackage s\<close>: "Installed package: {package}"
  \<^item> \<open>UninstalledPackage s\<close>: "Uninstalled package: {package}"
  \<^item> \<open>NoVenvError\<close>: "Error: No virtual environment found in this project. Please use
    'noetry create'."
  \<^item> \<open>UnsupportedOS\<close>: "Error: Unsupported OS."
  \<^item> \<open>AlreadyExists\<close>: "{NOETRY_YML} already exists."
  \<^item> \<open>Initialized v\<close>: "Initialized {NOETRY_YML} with default Python version {v}."
  \<^item> \<open>PyprojectNotFound\<close>: "Error: pyproject.toml not found in the current directory."
  \<^item> \<open>Converted\<close>: "Converted Poetry project to Noetry."
  \<^item> \<open>SpecifyAdd\<close>, \<open>SpecifyRemove\<close>, \<open>SpecifyPython\<close>, \<open>SpecifyRun\<close>: "Please specify a
    package to add.", "... a package to remove.", "... a Python version.",
    "... a command to run."
  \<^item> \<open>UnknownCommand c\<close>: "Unknown command: {cmd}"
  \<^item> \<open>HelpText\<close>: the usage text of \<open>show_help\<close>
  \<^item> \<open>ChildOutput s\<close>: the standard output of a child process that was not captured.
\<close>

datatype message =
    CreatedVenv path
  | DeletedVenv path
  | InstalledPackage string
  | UninstalledPackage string
  | NoVenvError
  | UnsupportedOS
  | AlreadyExists
  | Initialized string
  | PyprojectNotFound
  | Converted
  | SpecifyAdd
  | SpecifyRemove
  | SpecifyPython
  | SpecifyRun
  | UnknownCommand string
  | HelpText
  | ChildOutput string

text \<open>
  The command line that \<open>run_in_venv\<close> hands to a shell: \<open>DotAnd a c\<close> is
  \<open>f". {a} && {c}"\<close> and \<open>CallAnd a c\<close> is \<open>f"{a} && {c}"\<close>.
\<close>

datatype command_line =
    DotAnd path string
  | CallAnd path string

text \<open>
  A started child process: \<open>Exec exe args\<close> is \<open>subprocess.run([exe] + args)\<close>,
  \<open>ExecRm p\<close> is \<open>subprocess.run(['rm', '-rf', p])\<close>, \<open>Shell c\<close> is
  \<open>subprocess.run(cmd, shell=True)\<close> and \<open>ShellCmdExe c\<close> is
  \<open>subprocess.run(cmd, shell=True, executable='cmd.exe')\<close>.
\<close>

datatype process =
    Exec path "string list"
  | ExecRm path
  | Shell command_line
  | ShellCmdExe command_line

record completed_process =
  returncode :: int
  stdout :: string

subsection \<open>TOML documents\<close>

text \<open>
  The value \<open>toml.load\<close> returns: tables are Python dicts, which keep insertion order, so
  a table is an association list. (Floats and dates are left out; they behave like
  integers in every operation below.) A file that \<open>toml.load\<close> rejects is \<open>Malformed e\<close>,
  with the exception \<open>e\<close> that the parser raises on it.
\<close>

datatype toml =
    TString string
  | TInteger int
  | TBoolean bool
  | TArray "toml list"
  | TTable "(string \<times> toml) list"

datatype toml_file =
    Malformed exn
  | Document "(string \<times> toml) list"

subsection \<open>Files, host and world\<close>

text \<open>
  The environment directory \<open>.venv\<close>: which of the four files the program looks for are
  present, and the state of the installation, which is opaque to this program
  (type \<open>'e\<close>).
\<close>

record 'e venv =
  bin_pip :: bool
  scripts_pip :: bool
  bin_activate :: bool
  scripts_activate :: bool
  site :: 'e

record 'e project_files =
  noetry_yml :: "string option"
  requirements_txt :: "string option"
  pyproject_toml :: "toml_file option"
  dot_venv :: "'e venv option"

record host_info =
  os_name :: string
  sys_platform :: string
  rm_on_path :: bool

record 'e world =
  host :: host_info
  files :: "'e project_files"
  terminal :: "message list"
  spawned :: "process list"

text \<open>
  The external collaborators, whose behaviour is not part of the repository, are
  parameters:
  \<^item> \<open>pip args v\<close>: the installer of environment \<open>v\<close> run with arguments \<open>args\<close>; it gives
    the environment afterwards and the completed process;
  \<^item> \<open>start_error exe v\<close>: the exception, if any, with which the operating system refuses
    to start the existing file \<open>exe\<close> of environment \<open>v\<close> (\<open>PermissionError\<close> for a file
    that is not executable, \<open>FileNotFoundError\<close> for a script whose interpreter is gone,
    another \<open>OSError\<close>);
  \<^item> \<open>decode_error out\<close>: the exception, if any, that decoding the captured output \<open>out\<close>
    as text raises (\<open>text=True\<close>);
  \<^item> \<open>venv_create v\<close>: \<open>venv.create(venv_dir, with_pip=True)\<close> on the present state of the
    directory; it may raise and gives the directory afterwards;
  \<^item> \<open>shell p fs\<close>: what a shell command does to the files of the project, and its output;
  \<^item> \<open>yaml_dump\<close>: \<open>yaml.dump\<close> of a flat mapping;
  \<^item> \<open>py_repr\<close>: Python's \<open>str\<close> of a TOML value that is not a string.
\<close>

record 'e tools =
  pip :: "string list \<Rightarrow> 'e venv \<Rightarrow> 'e venv \<times> completed_process"
  start_error :: "path \<Rightarrow> 'e venv \<Rightarrow> exn option"
  decode_error :: "string \<Rightarrow> exn option"
  venv_create :: "'e venv option \<Rightarrow> exn option \<times> 'e venv option"
  shell :: "process \<Rightarrow> 'e project_files \<Rightarrow> 'e project_files \<times> string"
  yaml_dump :: "(string \<times> string) list \<Rightarrow> string"
  py_repr :: "toml \<Rightarrow> string"

definition py_print :: "message \<Rightarrow> 'e world \<Rightarrow> 'e world" where
  "py_print m w = w\<lparr>terminal := terminal w @ [m]\<rparr>"

text \<open>
  \<open>os.path.exists\<close>. The model knows the paths the program touches; any other path does
  not exist. Nothing exists below an absent \<open>.venv\<close>.
\<close>

definition venv_has :: "'e venv \<Rightarrow> path \<Rightarrow> bool" where
  "venv_has v p =
     (if p = [''.venv''] then True
      else if p = [''.venv'', ''bin'', ''pip''] then bin_pip v
      else if p = [''.venv'', ''Scripts'', ''pip''] then scripts_pip v
      else if p = [''.venv'', ''bin'', ''activate''] then bin_activate v
      else if p = [''.venv'', ''Scripts'', ''activate''] then scripts_activate v
      else False)"

definition os_path_exists :: "'e world \<Rightarrow> path \<Rightarrow> bool" where
  "os_path_exists w p =
     (if p = [] then True
      else if p = [''.noetry.yml''] then noetry_yml (files w) \<noteq> None
      else if p = [''requirements.txt''] then requirements_txt (files w) \<noteq> None
      else if p = [''pyproject.toml''] then pyproject_toml (files w) \<noteq> None
      else (case dot_venv (files w) of None \<Rightarrow> False | Some v \<Rightarrow> venv_has v p))"

text \<open>
  \<open>open(p, 'w')\<close> followed by one \<open>write\<close>: the file is created or truncated and holds
  exactly the text written. The program writes two files only.
\<close>

definition write_file :: "path \<Rightarrow> string \<Rightarrow> 'e world \<Rightarrow> 'e world" where
  "write_file p s w =
     (if p = [''requirements.txt''] then w\<lparr>files := (files w)\<lparr>requirements_txt := Some s\<rparr>\<rparr>
      else if p = [''.noetry.yml''] then w\<lparr>files := (files w)\<lparr>noetry_yml := Some s\<rparr>\<rparr>
      else w)"

text \<open>
  \<open>subprocess.run([exe] + args)\<close> for an executable inside the environment. When the
  file \<open>exe\<close> does not exist no process starts and Python raises \<open>FileNotFoundError\<close>.
  When it exists and the operating system refuses to start it, no process starts either
  and Python raises that error. Otherwise the installer runs to its end, whatever its
  exit status (the program passes no \<open>check=True\<close>). Its output goes to the terminal
  unless it is captured; captured output is decoded as text, and when that fails the
  exception is raised after the process has run. (The program passes no other
  executable by path.)
\<close>

definition is_pip_path :: "path \<Rightarrow> bool" where
  "is_pip_path p = (p = [''.venv'', ''bin'', ''pip''] \<or> p = [''.venv'', ''Scripts'', ''pip''])"

definition subprocess_run ::
  "'e tools \<Rightarrow> bool \<Rightarrow> path \<Rightarrow> string list \<Rightarrow> 'e world \<Rightarrow> (exn + completed_process) \<times> 'e world" where
  "subprocess_run t capture_output exe args w =
     (case dot_venv (files w) of
        None \<Rightarrow> (Inl FileNotFoundError, w)
      | Some v \<Rightarrow>
          if is_pip_path exe \<and> venv_has v exe then
            (case start_error t exe v of
               Some e \<Rightarrow> (Inl e, w)
             | None \<Rightarrow>
                 (let (v', cp) = pip t args v;
                      w' = w\<lparr>files := (files w)\<lparr>dot_venv := Some v'\<rparr>,
                             spawned := spawned w @ [Exec exe args],
                             terminal := terminal w @
                               (if capture_output then [] else [ChildOutput (stdout cp)])\<rparr>
                  in if capture_output then
                       (case decode_error t (stdout cp) of
                          Some e \<Rightarrow> (Inl e, w')
                        | None \<Rightarrow> (Inr cp, w'))
                     else (Inr cp, w')))
          else (Inl FileNotFoundError, w))"

text \<open>\<open>subprocess.run(cmd, shell=True, ...)\<close>: the shell starts and runs the line.\<close>

definition shell_run :: "'e tools \<Rightarrow> process \<Rightarrow> 'e world \<Rightarrow> exn option \<times> 'e world" where
  "shell_run t p w =
     (let (fs, out) = shell t p (files w)
      in (None, w\<lparr>files := fs, spawned := spawned w @ [p], terminal := terminal w @ [ChildOutput out]\<rparr>))"

section \<open>The operations\<close>

definition create_virtualenv :: "'e tools \<Rightarrow> 'e world \<Rightarrow> exn option \<times> 'e world" where
  "create_virtualenv t w =
     (let venv_dir = os_path_join project_dir ''.venv'';
          (e, v) = venv_create t (dot_venv (files w));
          w1 = w\<lparr>files := (files w)\<lparr>dot_venv := v\<rparr>\<rparr>
      in case e of
           Some x \<Rightarrow> (Some x, w1)
         | None \<Rightarrow> (None, py_print (CreatedVenv venv_dir) w1))"

definition delete_virtualenv :: "'e world \<Rightarrow> exn option \<times> 'e world" where
  "delete_virtualenv w =
     (let venv_dir = os_path_join project_dir ''.venv''
      in if rm_on_path (host w) then
           (None, py_print (DeletedVenv venv_dir)
                    (w\<lparr>files := (files w)\<lparr>dot_venv := None\<rparr>,
                       spawned := spawned w @ [ExecRm venv_dir]\<rparr>))
         else (Some FileNotFoundError, w))"

definition get_pip_exe :: "'e world \<Rightarrow> path \<Rightarrow> path" where
  "get_pip_exe w venv_dir =
     (if sys_platform (host w) = ''win32''
      then os_path_join (os_path_join venv_dir ''Scripts'') ''pip''
      else os_path_join (os_path_join venv_dir ''bin'') ''pip'')"

definition update_requirements :: "'e tools \<Rightarrow> 'e world \<Rightarrow> exn option \<times> 'e world" where
  "update_requirements t w =
     (let venv_dir = os_path_join project_dir ''.venv'';
          pip_exe = get_pip_exe w venv_dir
      in case subprocess_run t True pip_exe [''freeze''] w of
           (Inl e, w1) \<Rightarrow> (Some e, w1)
         | (Inr result, w1) \<Rightarrow>
             (let requirements = stdout result
              in (None, write_file (os_path_join project_dir ''requirements.txt'') requirements w1)))"

definition install_package :: "'e tools \<Rightarrow> string \<Rightarrow> 'e world \<Rightarrow> exn option \<times> 'e world" where
  "install_package t package w =
     (let venv_dir = os_path_join project_dir ''.venv'';
          pip_exe = get_pip_exe w venv_dir
      in case subprocess_run t False pip_exe [''install'', package] w of
           (Inl e, w1) \<Rightarrow> (Some e, w1)
         | (Inr _, w1) \<Rightarrow>
             (case update_requirements t w1 of
                (Some e, w2) \<Rightarrow> (Some e, w2)
              | (None, w2) \<Rightarrow> (None, py_print (InstalledPackage package) w2)))"

definition uninstall_package :: "'e tools \<Rightarrow> string \<Rightarrow> 'e world \<Rightarrow> exn option \<times> 'e world" where
  "uninstall_package t package w =
     (let venv_dir = os_path_join project_dir ''.venv'';
          pip_exe = get_pip_exe w venv_dir
      in case subprocess_run t False pip_exe [''uninstall'', ''-y'', package] w of
           (Inl e, w1) \<Rightarrow> (Some e, w1)
         | (Inr _, w1) \<Rightarrow>
             (case update_requirements t w1 of
                (Some e, w2) \<Rightarrow> (Some e, w2)
              | (None, w2) \<Rightarrow> (None, py_print (UninstalledPackage package) w2)))"

text \<open>\<open>' '.join(commands)\<close> and \<open>'\n'.join(requirements)\<close>.\<close>

fun str_join :: "string \<Rightarrow> string list \<Rightarrow> string" where
  "str_join sep [] = []"
| "str_join sep [x] = x"
| "str_join sep (x # y # ys) = x @ sep @ str_join sep (y # ys)"

definition run_in_venv :: "'e tools \<Rightarrow> string list \<Rightarrow> 'e world \<Rightarrow> exn option \<times> 'e world" where
  "run_in_venv t commands w =
     (let venv_dir = os_path_join project_dir ''.venv''
      in if \<not> os_path_exists w venv_dir then (None, py_print NoVenvError w)
         else
           (let activate_script0 = os_path_join (os_path_join venv_dir ''bin'') ''activate'';
                activate_script =
                  (if \<not> os_path_exists w activate_script0
                   then os_path_join (os_path_join venv_dir ''Scripts'') ''activate''
                   else activate_script0)
            in if os_name (host w) = ''posix'' then
                 shell_run t (Shell (DotAnd activate_script (str_join '' '' commands))) w
               else if os_name (host w) = ''nt'' then
                 shell_run t (ShellCmdExe (CallAnd activate_script (str_join '' '' commands))) w
               else (None, py_print UnsupportedOS w)))"

definition default_config :: "(string \<times> string) list" where
  "default_config = [(''python_version'', ''3.9'')]"

definition init_project :: "'e tools \<Rightarrow> 'e world \<Rightarrow> exn option \<times> 'e world" where
  "init_project t w =
     (let config_path = os_path_join project_dir NOETRY_YML
      in if os_path_exists w config_path then (None, py_print AlreadyExists w)
         else
           (let w1 = write_file config_path (yaml_dump t default_config) w;
                w2 = py_print (Initialized ''3.9'') w1
            in create_virtualenv t w2))"

definition list_packages :: "'e tools \<Rightarrow> 'e world \<Rightarrow> exn option \<times> 'e world" where
  "list_packages t w =
     (let venv_dir = os_path_join project_dir ''.venv''
      in if \<not> os_path_exists w venv_dir then (None, py_print NoVenvError w)
         else
           (let pip_exe = get_pip_exe w venv_dir
            in case subprocess_run t False pip_exe [''list''] w of
                 (Inl e, w1) \<Rightarrow> (Some e, w1)
               | (Inr _, w1) \<Rightarrow> (None, w1)))"

subsection \<open>Importing a Poetry manifest\<close>

text \<open>
  The dynamically typed operations that \<open>convert_from_poetry\<close> applies to the parsed
  document, with the exceptions Python raises when a value has the wrong type:
  \<open>x.get(k, d)\<close>, \<open>k in x\<close>, \<open>del x[k]\<close> and \<open>{**x, **y}\<close>.
\<close>

fun py_get :: "toml \<Rightarrow> string \<Rightarrow> toml \<Rightarrow> exn + toml" where
  "py_get (TTable kvs) k d = Inr (case map_of kvs k of Some v \<Rightarrow> v | None \<Rightarrow> d)"
| "py_get _ k d = Inl AttributeError"

fun is_substring :: "string \<Rightarrow> string \<Rightarrow> bool" where
  "is_substring k [] = (k = [])"
| "is_substring k (c # cs) = (take (length k) (c # cs) = k \<or> is_substring k cs)"

fun py_in :: "string \<Rightarrow> toml \<Rightarrow> exn + bool" where
  "py_in k (TTable kvs) = Inr (k \<in> set (map fst kvs))"
| "py_in k (TString s) = Inr (is_substring k s)"
| "py_in k (TArray xs) = Inr (TString k \<in> set xs)"
| "py_in k _ = Inl TypeError"

fun py_del :: "toml \<Rightarrow> string \<Rightarrow> exn + toml" where
  "py_del (TTable kvs) k =
     (if k \<in> set (map fst kvs) then Inr (TTable (AList.delete k kvs)) else Inl KeyError)"
| "py_del _ k = Inl TypeError"

text \<open>
  \<open>{**a, **b}\<close>: the entries of \<open>a\<close> in order, each entry of \<open>b\<close> then stored as by
  \<open>d[k] = v\<close>: a key that is present keeps its position and takes the new value, a new
  key goes to the end.
\<close>

definition dict_store :: "(string \<times> toml) list \<Rightarrow> string \<times> toml \<Rightarrow> (string \<times> toml) list" where
  "dict_store d kv = AList.update (fst kv) (snd kv) d"

fun dict_unpack :: "toml \<Rightarrow> toml \<Rightarrow> exn + (string \<times> toml) list" where
  "dict_unpack (TTable a) (TTable b) = Inr (foldl dict_store a b)"
| "dict_unpack _ _ = Inl TypeError"

text \<open>\<open>f"{name}{version}"\<close>: a string is inserted as it is, any other value by \<open>str\<close>.\<close>

fun py_str :: "'e tools \<Rightarrow> toml \<Rightarrow> string" where
  "py_str t (TString s) = s"
| "py_str t v = py_repr t v"

definition requirement_line :: "'e tools \<Rightarrow> string \<times> toml \<Rightarrow> string" where
  "requirement_line t nv = fst nv @ py_str t (snd nv)"

text \<open>\<open>open(poetry_file, 'r')\<close> and \<open>toml.load(file)\<close>.\<close>

definition toml_load :: "'e world \<Rightarrow> exn + toml" where
  "toml_load w =
     (case pyproject_toml (files w) of
        None \<Rightarrow> Inl FileNotFoundError
      | Some (Malformed e) \<Rightarrow> Inl e
      | Some (Document kvs) \<Rightarrow> Inr (TTable kvs))"

text \<open>\<open>poetry_data.get('tool', {}).get('poetry', {}).get(grp, {})\<close>.\<close>

definition poetry_group :: "toml \<Rightarrow> string \<Rightarrow> exn + toml" where
  "poetry_group poetry_data grp =
     (case py_get poetry_data ''tool'' (TTable []) of
        Inl e \<Rightarrow> Inl e
      | Inr tool \<Rightarrow>
          (case py_get tool ''poetry'' (TTable []) of
             Inl e \<Rightarrow> Inl e
           | Inr poetry \<Rightarrow> py_get poetry grp (TTable [])))"

text \<open>
  The part of \<open>convert_from_poetry\<close> between reading the document and writing the
  manifest: the two groups, the removal of \<open>python\<close> from the runtime group, and the
  merge. It touches no file.
\<close>

definition merged_dependencies :: "toml \<Rightarrow> exn + (string \<times> toml) list" where
  "merged_dependencies poetry_data =
     (case poetry_group poetry_data ''dependencies'' of
        Inl e \<Rightarrow> Inl e
      | Inr dependencies \<Rightarrow>
          (case poetry_group poetry_data ''dev-dependencies'' of
             Inl e \<Rightarrow> Inl e
           | Inr dev_dependencies \<Rightarrow>
               (case py_in ''python'' dependencies of
                  Inl e \<Rightarrow> Inl e
                | Inr has_python \<Rightarrow>
                    (case (if has_python then py_del dependencies ''python'' else Inr dependencies) of
                       Inl e \<Rightarrow> Inl e
                     | Inr dependencies' \<Rightarrow> dict_unpack dependencies' dev_dependencies))))"

definition convert_from_poetry :: "'e tools \<Rightarrow> 'e world \<Rightarrow> exn option \<times> 'e world" where
  "convert_from_poetry t w =
     (let poetry_file = os_path_join project_dir ''pyproject.toml''
      in if \<not> os_path_exists w poetry_file then (None, py_print PyprojectNotFound w)
         else
           (case toml_load w of
              Inl e \<Rightarrow> (Some e, w)
            | Inr poetry_data \<Rightarrow>
                (case merged_dependencies poetry_data of
                   Inl e \<Rightarrow> (Some e, w)
                 | Inr merged \<Rightarrow>
                     (let requirements = map (requirement_line t) merged;
                          w1 = write_file (os_path_join project_dir ''requirements.txt'')
                                 (str_join [CHR 0x0A] requirements) w
                      in case init_project t w1 of
                           (Some e, w2) \<Rightarrow> (Some e, w2)
                         | (None, w2) \<Rightarrow> (None, py_print Converted w2)))))"

subsection \<open>The dispatcher\<close>

definition show_help :: "'e world \<Rightarrow> exn option \<times> 'e world" where
  "show_help w = (None, py_print HelpText w)"

text \<open>
  \<open>argv\<close> is \<open>sys.argv\<close>, the program name first. The source defines no function
  \<open>set_python_version\<close>: evaluating that name raises \<open>NameError\<close>.
\<close>

definition main :: "'e tools \<Rightarrow> string list \<Rightarrow> 'e world \<Rightarrow> exn option \<times> 'e world" where
  "main t argv w =
     (if length argv < 2 then show_help w
      else
        (let cmd = argv ! 1;
             args = drop 2 argv
         in if cmd = ''create'' then create_virtualenv t w
            else if cmd = ''delete'' then delete_virtualenv w
            else if cmd = ''add'' then
              (if args \<noteq> [] then install_package t (args ! 0) w
               else (None, py_print SpecifyAdd w))
            else if cmd = ''remove'' then
              (if args \<noteq> [] then uninstall_package t (args ! 0) w
               else (None, py_print SpecifyRemove w))
            else if cmd = ''set-python'' then
              (if args \<noteq> [] then (Some (NameError ''set_python_version''), w)
               else (None, py_print SpecifyPython w))
            else if cmd = ''init'' then init_project t w
            else if cmd = ''convert'' then convert_from_poetry t w
            else if cmd = ''run'' then
              (if args \<noteq> [] then run_in_venv t args w
               else (None, py_print SpecifyRun w))
            else if cmd = ''list'' then list_packages t w
            else show_help (py_print (UnknownCommand cmd) w)))"

section \<open>Vocabulary of the properties\<close>




text \<open>
  Two properties of the installer, which the program relies on and cannot establish:
  its enumeration (\<open>freeze\<close>) leaves the environment as it is, and after a removal of
  \<open>P\<close> that exits with status 0 the enumeration has no entry for \<open>P\<close>.
\<close>

definition freeze_read_only :: "'e tools \<Rightarrow> bool" where
  "freeze_read_only t = (\<forall>v. fst (pip t [''freeze''] v) = v)"


section \<open>A small instance of the collaborators\<close>

text \<open>
  For the examples: an installer whose index holds the single package \<open>requests\<close>, so
  that the state of an environment is whether \<open>requests\<close> is installed; an environment
  creator that makes a POSIX layout; a shell that changes nothing.
\<close>

definition ok_process :: "string \<Rightarrow> completed_process" where
  "ok_process out = \<lparr>returncode = 0, stdout = out\<rparr>"

definition failed_process :: "completed_process" where
  "failed_process = \<lparr>returncode = 1, stdout = []\<rparr>"

definition example_freeze :: "bool \<Rightarrow> string" where
  "example_freeze installed = (if installed then ''requests==2.31.0'' @ [CHR 0x0A] else [])"

definition example_pip :: "string list \<Rightarrow> bool venv \<Rightarrow> bool venv \<times> completed_process" where
  "example_pip args v =
     (if args = [''freeze''] then (v, ok_process (example_freeze (site v)))
      else if args = [''list''] then (v, ok_process (example_freeze (site v)))
      else if args = [''install'', ''requests''] then (v\<lparr>site := True\<rparr>, ok_process [])
      else if args = [''uninstall'', ''-y'', ''requests''] then (v\<lparr>site := False\<rparr>, ok_process [])
      else (v, failed_process))"

definition posix_venv :: "bool \<Rightarrow> bool venv" where
  "posix_venv installed =
     \<lparr>bin_pip = True, scripts_pip = False, bin_activate = True, scripts_activate = False,
      site = installed\<rparr>"

definition example_yaml_dump :: "(string \<times> string) list \<Rightarrow> string" where
  "example_yaml_dump kvs =
     concat (map (\<lambda>kv. fst kv @ '': '' @ [CHR 0x27] @ snd kv @ [CHR 0x27, CHR 0x0A]) kvs)"

definition example_tools :: "bool tools" where
  "example_tools =
     \<lparr>pip = example_pip,
      start_error = (\<lambda>exe v. None),
      decode_error = (\<lambda>out. None),
      venv_create = (\<lambda>v. (None, Some (posix_venv False))),
      shell = (\<lambda>p fs. (fs, [])),
      yaml_dump = example_yaml_dump,
      py_repr = (\<lambda>v. ''?'')\<rparr>"

definition no_files :: "bool project_files" where
  "no_files = \<lparr>noetry_yml = None, requirements_txt = None, pyproject_toml = None, dot_venv = None\<rparr>"

definition linux_host :: host_info where
  "linux_host = \<lparr>os_name = ''posix'', sys_platform = ''linux'', rm_on_path = True\<rparr>"

definition other_host :: host_info where
  "other_host = \<lparr>os_name = ''java'', sys_platform = ''java1.8'', rm_on_path = True\<rparr>"

definition start :: "host_info \<Rightarrow> bool project_files \<Rightarrow> bool world" where
  "start h fs = \<lparr>host = h, files = fs, terminal = [], spawned = []\<rparr>"

text \<open>An installer that fails on every invocation and prints nothing.\<close>

definition failing_tools :: "bool tools" where
  "failing_tools = example_tools\<lparr>pip := (\<lambda>args v. (v, failed_process))\<rparr>"

text \<open>A host on which the installer's file exists and may not be executed.\<close>

definition locked_tools :: "bool tools" where
  "locked_tools = example_tools\<lparr>start_error := (\<lambda>exe v. Some PermissionError)\<rparr>"

text \<open>
  Poetry manifests: one with both groups, one with the runtime group only.
\<close>

definition poetry_document :: "(string \<times> toml) list \<Rightarrow> (string \<times> toml) list \<Rightarrow> (string \<times> toml) list" where
  "poetry_document deps dev =
     [(''tool'', TTable [(''poetry'',
        TTable [(''dependencies'', TTable deps), (''dev-dependencies'', TTable dev)])])]"


section \<open>Auxiliary facts\<close>

lemmas path_defs = project_dir_def os_path_join_def NOETRY_YML_def get_pip_exe_def is_pip_path_def

lemmas example_defs = example_tools_def example_pip_def example_freeze_def posix_venv_def
  example_yaml_dump_def no_files_def linux_host_def other_host_def start_def ok_process_def
  failed_process_def failing_tools_def locked_tools_def

lemmas op_defs = install_package_def uninstall_package_def update_requirements_def
  subprocess_run_def write_file_def py_print_def venv_has_def os_path_exists_def path_defs

lemma subprocess_run_no_venv:
  "dot_venv (files w) = None \<Longrightarrow> subprocess_run t c exe args w = (Inl FileNotFoundError, w)"
  by (simp add: subprocess_run_def)

lemma subprocess_run_keeps_manifest:
  "requirements_txt (files (snd (subprocess_run t c exe args w))) = requirements_txt (files w)"
  by (simp add: subprocess_run_def Let_def split: option.splits prod.splits)

lemma subprocess_run_returns:
  assumes "subprocess_run t c exe args w = (Inr cp, w')"
      and "dot_venv (files w) = Some v"
  shows "cp = snd (pip t args v) \<and>
         w' = w\<lparr>files := (files w)\<lparr>dot_venv := Some (fst (pip t args v))\<rparr>,
                spawned := spawned w @ [Exec exe args],
                terminal := terminal w @ (if c then [] else [ChildOutput (stdout (snd (pip t args v)))])\<rparr>"
  using assms
  by (auto simp: subprocess_run_def Let_def split: option.splits prod.splits if_splits)

lemma subprocess_run_venv:
  "subprocess_run t c exe args w = (Inr cp, w') \<Longrightarrow> \<exists>v. dot_venv (files w) = Some v"
  by (cases "dot_venv (files w)") (simp_all add: subprocess_run_def)

lemma update_requirements_returns:
  assumes "update_requirements t w = (None, w')"
      and "dot_venv (files w) = Some v"
  shows "requirements_txt (files w') = Some (stdout (snd (pip t [''freeze''] v)))"
proof -
  let ?exe = "get_pip_exe w (os_path_join project_dir ''.venv'')"
  obtain r w1 where run: "subprocess_run t True ?exe [''freeze''] w = (r, w1)"
    by (cases "subprocess_run t True ?exe [''freeze''] w")
  show ?thesis
  proof (cases r)
    case (Inl e)
    with run assms(1) show ?thesis
      by (simp add: update_requirements_def Let_def)
  next
    case (Inr cp)
    with run have r: "subprocess_run t True ?exe [''freeze''] w = (Inr cp, w1)" by simp
    from subprocess_run_returns [OF r assms(2)] have cp: "cp = snd (pip t [''freeze''] v)"
      by simp
    from run Inr assms(1)
    have "w' = write_file (os_path_join project_dir ''requirements.txt'') (stdout cp) w1"
      by (simp add: update_requirements_def Let_def)
    then show ?thesis
      by (simp add: cp write_file_def project_dir_def os_path_join_def)
  qed
qed

lemma update_requirements_raises:
  assumes "update_requirements t w = (Some e, w')"
  shows "requirements_txt (files w') = requirements_txt (files w)"
proof -
  let ?exe = "get_pip_exe w (os_path_join project_dir ''.venv'')"
  obtain r w1 where run: "subprocess_run t True ?exe [''freeze''] w = (r, w1)"
    by (cases "subprocess_run t True ?exe [''freeze''] w")
  from subprocess_run_keeps_manifest [of t True ?exe "[''freeze'']" w] run
  have keep: "requirements_txt (files w1) = requirements_txt (files w)" by simp
  show ?thesis
  proof (cases r)
    case (Inl x)
    with run assms have "w' = w1"
      by (simp add: update_requirements_def Let_def)
    with keep show ?thesis by simp
  next
    case (Inr cp)
    with run assms show ?thesis
      by (simp add: update_requirements_def Let_def)
  qed
qed

lemma update_requirements_no_venv:
  "dot_venv (files w) = None \<Longrightarrow> update_requirements t w = (Some FileNotFoundError, w)"
  by (simp add: update_requirements_def subprocess_run_no_venv)

lemma update_requirements_returns_venv:
  "update_requirements t w = (None, w') \<Longrightarrow> \<exists>v. dot_venv (files w) = Some v"
  by (cases "dot_venv (files w)") (simp_all add: update_requirements_no_venv)

lemma update_requirements_host:
  "host (snd (update_requirements t w)) = host w"
  by (simp add: update_requirements_def subprocess_run_def write_file_def project_dir_def
        os_path_join_def Let_def split: option.splits prod.splits sum.splits)

lemma update_requirements_venv:
  "freeze_read_only t \<Longrightarrow>
   dot_venv (files (snd (update_requirements t w))) = dot_venv (files w)"
  by (auto simp: update_requirements_def subprocess_run_def write_file_def project_dir_def
        os_path_join_def Let_def freeze_read_only_def fst_conv
        split: option.splits prod.splits sum.splits
        dest: arg_cong [where f = fst])

lemma update_requirements_outcome:
  "host w' = host w \<Longrightarrow> dot_venv (files w') = dot_venv (files w) \<Longrightarrow>
   fst (update_requirements t w') = fst (update_requirements t w)"
  by (simp add: update_requirements_def subprocess_run_def get_pip_exe_def Let_def
        split: option.splits prod.splits sum.splits)


lemma init_project_config_present:
  "noetry_yml (files w) \<noteq> None \<Longrightarrow>
   init_project t w = (None, w\<lparr>terminal := terminal w @ [AlreadyExists]\<rparr>)"
  by (simp add: init_project_def os_path_exists_def path_defs py_print_def)

lemma create_virtualenv_files:
  "noetry_yml (files (snd (create_virtualenv t w))) = noetry_yml (files w) \<and>
   requirements_txt (files (snd (create_virtualenv t w))) = requirements_txt (files w)"
  by (simp add: create_virtualenv_def py_print_def Let_def split: prod.splits option.splits)

lemma init_project_config_after:
  "noetry_yml (files (snd (init_project t w))) \<noteq> None"
  by (simp add: init_project_def os_path_exists_def path_defs py_print_def write_file_def
        create_virtualenv_files)

lemma init_project_requirements:
  "requirements_txt (files (snd (init_project t w))) = requirements_txt (files w)"
  by (simp add: init_project_def os_path_exists_def path_defs py_print_def write_file_def
        create_virtualenv_files)


lemma example_freeze_read_only: "freeze_read_only example_tools"
  by (simp add: freeze_read_only_def example_defs)

section \<open>Operations on a project without an environment\<close>

text \<open>
  Claim C1. In a project directory where \<open>.venv\<close> does not exist, \<open>list_packages\<close> and
  \<open>run_in_venv\<close> print the error that no virtual environment was found and return, and
  \<open>install_package\<close> and \<open>uninstall_package\<close> end with \<open>FileNotFoundError\<close>, raised when
  the installer's executable cannot be started. In all four cases no file of the project
  changes, so \<open>requirements.txt\<close> is as it was; the two that print change the terminal
  only, the two that raise change nothing at all.
\<close>

theorem no_environment_not_found:
  assumes "dot_venv (files w) = None"
  shows "list_packages t w = (None, w\<lparr>terminal := terminal w @ [NoVenvError]\<rparr>) \<and>
         run_in_venv t commands w = (None, w\<lparr>terminal := terminal w @ [NoVenvError]\<rparr>) \<and>
         install_package t package w = (Some FileNotFoundError, w) \<and>
         uninstall_package t package w = (Some FileNotFoundError, w)"
proof -
  have ex: "\<not> os_path_exists w (os_path_join project_dir ''.venv'')"
    using assms by (simp add: os_path_exists_def path_defs)
  have "list_packages t w = (None, w\<lparr>terminal := terminal w @ [NoVenvError]\<rparr>)"
    using ex by (simp add: list_packages_def py_print_def)
  moreover have "run_in_venv t commands w = (None, w\<lparr>terminal := terminal w @ [NoVenvError]\<rparr>)"
    using ex by (simp add: run_in_venv_def py_print_def)
  moreover have "install_package t package w = (Some FileNotFoundError, w)"
    by (simp add: install_package_def subprocess_run_no_venv [OF assms])
  moreover have "uninstall_package t package w = (Some FileNotFoundError, w)"
    by (simp add: uninstall_package_def subprocess_run_no_venv [OF assms])
  ultimately show ?thesis by simp
qed

theorem no_environment_not_found_witness:
  "dot_venv (files (start linux_host (no_files\<lparr>requirements_txt := Some ''flask==3.0''\<rparr>))) = None \<and>
   requirements_txt (files (snd (install_package example_tools ''requests''
      (start linux_host (no_files\<lparr>requirements_txt := Some ''flask==3.0''\<rparr>))))) = Some ''flask==3.0'' \<and>
   fst (install_package example_tools ''requests''
      (start linux_host (no_files\<lparr>requirements_txt := Some ''flask==3.0''\<rparr>))) = Some FileNotFoundError \<and>
   requirements_txt (files (snd (uninstall_package example_tools ''requests''
      (start linux_host (no_files\<lparr>requirements_txt := Some ''flask==3.0''\<rparr>))))) = Some ''flask==3.0'' \<and>
   fst (uninstall_package example_tools ''requests''
      (start linux_host (no_files\<lparr>requirements_txt := Some ''flask==3.0''\<rparr>))) = Some FileNotFoundError \<and>
   requirements_txt (files (snd (list_packages example_tools
      (start linux_host (no_files\<lparr>requirements_txt := Some ''flask==3.0''\<rparr>))))) = Some ''flask==3.0'' \<and>
   terminal (snd (list_packages example_tools
      (start linux_host (no_files\<lparr>requirements_txt := Some ''flask==3.0''\<rparr>)))) = [NoVenvError] \<and>
   requirements_txt (files (snd (run_in_venv example_tools [''python'', ''app.py'']
      (start linux_host (no_files\<lparr>requirements_txt := Some ''flask==3.0''\<rparr>))))) = Some ''flask==3.0'' \<and>
   terminal (snd (run_in_venv example_tools [''python'', ''app.py'']
      (start linux_host (no_files\<lparr>requirements_txt := Some ''flask==3.0''\<rparr>)))) = [NoVenvError]"
  using no_environment_not_found
    [of "start linux_host (no_files\<lparr>requirements_txt := Some ''flask==3.0''\<rparr>)"
      example_tools "[''python'', ''app.py'']" "''requests''"]
  by (simp add: no_files_def start_def)

section \<open>Install followed by uninstall\<close>



lemma map_add_upd_left: "m(k \<mapsto> v) ++ n = m ++ ([k \<mapsto> v] ++ n)"
  by (rule ext) (simp add: map_add_def split: option.splits)

lemma map_of_foldl_dict_store: "map_of (foldl dict_store a b) = map_of a ++ map_of (rev b)"
proof (induction b arbitrary: a)
  case Nil
  show ?case by simp
next
  case (Cons x xs)
  have "map_of (foldl dict_store a (x # xs)) = map_of (dict_store a x) ++ map_of (rev xs)"
    by (simp add: Cons.IH)
  also have "\<dots> = (map_of a)(fst x \<mapsto> snd x) ++ map_of (rev xs)"
    by (simp add: dict_store_def update_conv')
  also have "\<dots> = map_of a ++ ([fst x \<mapsto> snd x] ++ map_of (rev xs))"
    by (rule map_add_upd_left)
  also have "\<dots> = map_of a ++ map_of (rev (x # xs))"
    by (cases x) simp
  finally show ?case .
qed

lemma distinct_foldl_dict_store:
  "distinct (map fst a) \<Longrightarrow> distinct (map fst (foldl dict_store a b))"
  by (induction b arbitrary: a) (simp_all add: dict_store_def distinct_update)

lemma map_of_rev_distinct: "distinct (map fst b) \<Longrightarrow> map_of (rev b) = map_of b"
proof (induction b)
  case Nil
  show ?case by simp
next
  case (Cons x xs)
  obtain k v where x: "x = (k, v)" by (cases x)
  from Cons.prems x have fresh: "map_of xs k = None"
    by (simp add: map_of_eq_None_iff)
  from Cons have ih: "map_of (rev xs) = map_of xs" by simp
  show ?case
    using fresh by (auto simp: x ih map_add_def fun_eq_iff split: option.splits)
qed

lemma merged_map:
  assumes "distinct (map fst deps)" and "distinct (map fst dev)"
  shows "map_of (foldl dict_store (AList.delete ''python'' deps) dev) =
           (map_of deps)(''python'' := None) ++ map_of dev"
    and "distinct (map fst (foldl dict_store (AList.delete ''python'' deps) dev))"
  using assms
  by (simp_all add: map_of_foldl_dict_store map_of_rev_distinct delete_conv'
        distinct_foldl_dict_store distinct_delete)

lemma merged_dependencies_tables:
  assumes "poetry_group doc ''dependencies'' = Inr (TTable deps)"
      and "poetry_group doc ''dev-dependencies'' = Inr (TTable dev)"
  shows "merged_dependencies doc = Inr (foldl dict_store (AList.delete ''python'' deps) dev)"
proof (cases "''python'' \<in> set (map fst deps)")
  case True
  with assms show ?thesis
    by (simp add: merged_dependencies_def)
next
  case False
  then have "AList.delete ''python'' deps = deps"
    by (simp add: delete_id)
  with False assms show ?thesis
    by (simp add: merged_dependencies_def)
qed

lemma convert_writes_manifest:
  assumes load: "toml_load w = Inr doc"
      and merged: "merged_dependencies doc = Inr merged"
  shows "requirements_txt (files (snd (convert_from_poetry t w))) =
           Some (str_join [CHR 0x0A] (map (requirement_line t) merged))"
proof -
  let ?w1 = "write_file [''requirements.txt'']
               (str_join [CHR 0x0A] (map (requirement_line t) merged)) w"
  have ex: "os_path_exists w [''pyproject.toml'']"
    using load by (auto simp: toml_load_def os_path_exists_def split: option.splits)
  have conv: "convert_from_poetry t w =
                (case init_project t ?w1 of
                   (Some e, w2) \<Rightarrow> (Some e, w2)
                 | (None, w2) \<Rightarrow> (None, py_print Converted w2))"
    using ex load merged
    by (simp add: convert_from_poetry_def project_dir_def os_path_join_def)
  have "requirements_txt (files (snd (convert_from_poetry t w))) =
          requirements_txt (files (snd (init_project t ?w1)))"
    unfolding conv
    by (cases "init_project t ?w1") (simp add: py_print_def split: option.splits)
  also have "\<dots> = requirements_txt (files ?w1)"
    by (rule init_project_requirements)
  also have "\<dots> = Some (str_join [CHR 0x0A] (map (requirement_line t) merged))"
    by (simp add: write_file_def)
  finally show ?thesis .
qed

section \<open>Initialising twice\<close>

text \<open>
  Claim C5. When \<open>.noetry.yml\<close> exists, \<open>init_project\<close> prints that it already exists and
  returns; nothing but the terminal changes, so the file keeps its content and no
  environment is created. After a first call from any state the file exists, so a second
  call is of that kind: the content of the file after the second call is the content
  after the first.
\<close>

theorem init_project_twice:
  "(noetry_yml (files w) \<noteq> None \<longrightarrow>
      init_project t w = (None, w\<lparr>terminal := terminal w @ [AlreadyExists]\<rparr>)) \<and>
   (let w1 = snd (init_project t w)
    in noetry_yml (files w1) \<noteq> None \<and>
       init_project t w1 = (None, w1\<lparr>terminal := terminal w1 @ [AlreadyExists]\<rparr>))"
proof -
  let ?w1 = "snd (init_project t w)"
  have a: "noetry_yml (files w) \<noteq> None \<longrightarrow>
             init_project t w = (None, w\<lparr>terminal := terminal w @ [AlreadyExists]\<rparr>)"
    using init_project_config_present by blast
  have b: "noetry_yml (files ?w1) \<noteq> None"
    by (rule init_project_config_after)
  have c: "init_project t ?w1 = (None, ?w1\<lparr>terminal := terminal ?w1 @ [AlreadyExists]\<rparr>)"
    using b by (rule init_project_config_present)
  show ?thesis
    unfolding Let_def using a b c by blast
qed

theorem init_project_twice_witness:
  "noetry_yml (files (start linux_host (no_files\<lparr>noetry_yml := Some ''python_version: 3.11''\<rparr>))) \<noteq> None \<and>
   init_project example_tools (start linux_host (no_files\<lparr>noetry_yml := Some ''python_version: 3.11''\<rparr>)) =
     (None, \<lparr>host = linux_host, files = no_files\<lparr>noetry_yml := Some ''python_version: 3.11''\<rparr>,
             terminal = [AlreadyExists], spawned = []\<rparr>) \<and>
   init_project example_tools
       (snd (init_project example_tools
               (start linux_host (no_files\<lparr>noetry_yml := Some ''python_version: 3.11''\<rparr>)))) =
     (None, \<lparr>host = linux_host, files = no_files\<lparr>noetry_yml := Some ''python_version: 3.11''\<rparr>,
             terminal = [AlreadyExists, AlreadyExists], spawned = []\<rparr>)"
proof -
  let ?w = "start linux_host (no_files\<lparr>noetry_yml := Some ''python_version: 3.11''\<rparr>)"
  let ?w1 = "snd (init_project example_tools ?w)"
  note twice = init_project_twice [of ?w example_tools]
  have hyp: "noetry_yml (files ?w) \<noteq> None"
    by (simp add: start_def no_files_def)
  from twice hyp
  have first: "init_project example_tools ?w = (None, ?w\<lparr>terminal := terminal ?w @ [AlreadyExists]\<rparr>)"
    by blast
  from twice
  have second: "init_project example_tools ?w1 = (None, ?w1\<lparr>terminal := terminal ?w1 @ [AlreadyExists]\<rparr>)"
    unfolding Let_def by blast
  have w1: "?w1 = ?w\<lparr>terminal := terminal ?w @ [AlreadyExists]\<rparr>"
    using first by simp
  show ?thesis
    using hyp first second unfolding w1
    by (simp add: start_def no_files_def)
qed

section \<open>Resynchronising the manifest\<close>

text \<open>
  Claim C6. If the installer's enumeration leaves the environment as it is, then from
  any state of the project the manifest after a second call of \<open>update_requirements\<close> is
  the manifest after the first: either both calls write the same enumeration, or
  \<open>subprocess.run\<close> raises in both and the manifest is not touched.
\<close>

theorem update_requirements_idempotent:
  assumes "freeze_read_only t"
  shows "let w1 = snd (update_requirements t w);
             w2 = snd (update_requirements t w1)
         in requirements_txt (files w2) = requirements_txt (files w1)"
proof -
  let ?w1 = "snd (update_requirements t w)"
  let ?w2 = "snd (update_requirements t ?w1)"
  have same: "fst (update_requirements t ?w1) = fst (update_requirements t w)"
    by (rule update_requirements_outcome)
       (simp_all add: update_requirements_host update_requirements_venv [OF assms])
  have "requirements_txt (files ?w2) = requirements_txt (files ?w1)"
  proof (cases "fst (update_requirements t w)")
    case None
    then have one: "update_requirements t w = (None, ?w1)"
      by (simp add: prod_eq_iff)
    then obtain v where v: "dot_venv (files w) = Some v"
      using update_requirements_returns_venv by blast
    have v1: "dot_venv (files ?w1) = Some v"
      using v by (simp add: update_requirements_venv [OF assms])
    from same None have two: "update_requirements t ?w1 = (None, ?w2)"
      by (simp add: prod_eq_iff)
    show ?thesis
      using update_requirements_returns [OF one v] update_requirements_returns [OF two v1]
      by simp
  next
    case (Some e)
    with same have "update_requirements t ?w1 = (Some e, ?w2)"
      by (simp add: prod_eq_iff)
    then show ?thesis
      by (rule update_requirements_raises)
  qed
  then show ?thesis
    by (simp add: Let_def)
qed

theorem update_requirements_idempotent_witness:
  "freeze_read_only example_tools \<and>
   requirements_txt (files (snd (update_requirements example_tools
      (start linux_host (no_files\<lparr>dot_venv := Some (posix_venv True),
                                    requirements_txt := Some ''stale''\<rparr>))))) =
     Some (''requests==2.31.0'' @ [CHR 0x0A]) \<and>
   requirements_txt (files (snd (update_requirements example_tools
      (snd (update_requirements example_tools
         (start linux_host (no_files\<lparr>dot_venv := Some (posix_venv True),
                                       requirements_txt := Some ''stale''\<rparr>))))))) =
     Some (''requests==2.31.0'' @ [CHR 0x0A])"
proof -
  let ?w = "start linux_host (no_files\<lparr>dot_venv := Some (posix_venv True),
                                         requirements_txt := Some ''stale''\<rparr>)"
  have first: "requirements_txt (files (snd (update_requirements example_tools ?w))) =
                 Some (''requests==2.31.0'' @ [CHR 0x0A])"
    by (simp add: op_defs example_defs)
  show ?thesis
    using update_requirements_idempotent [OF example_freeze_read_only, of ?w]
      example_freeze_read_only first
    by (simp add: Let_def)
qed




section \<open>Locating the installer\<close>

text \<open>
  Claim C7. \<open>get_pip_exe\<close> reads nothing of the world but \<open>sys.platform\<close>: in two worlds
  with the same platform it gives the same path for the same environment directory,
  whatever files exist in either.
\<close>

theorem get_pip_exe_platform_only:
  "sys_platform (host w1) = sys_platform (host w2) \<Longrightarrow>
   get_pip_exe w1 venv_dir = get_pip_exe w2 venv_dir"
  by (simp add: get_pip_exe_def)

theorem get_pip_exe_platform_only_witness:
  "sys_platform (host (start linux_host no_files)) =
     sys_platform (host (start linux_host
        (no_files\<lparr>dot_venv := Some ((posix_venv False)\<lparr>bin_pip := False, scripts_pip := True\<rparr>)\<rparr>))) \<and>
   files (start linux_host no_files) \<noteq>
     files (start linux_host
        (no_files\<lparr>dot_venv := Some ((posix_venv False)\<lparr>bin_pip := False, scripts_pip := True\<rparr>)\<rparr>)) \<and>
   get_pip_exe (start linux_host no_files) [''.venv''] = [''.venv'', ''bin'', ''pip''] \<and>
   get_pip_exe (start linux_host
        (no_files\<lparr>dot_venv := Some ((posix_venv False)\<lparr>bin_pip := False, scripts_pip := True\<rparr>)\<rparr>))
      [''.venv''] = [''.venv'', ''bin'', ''pip'']"
proof -
  let ?w1 = "start linux_host no_files"
  let ?w2 = "start linux_host
        (no_files\<lparr>dot_venv := Some ((posix_venv False)\<lparr>bin_pip := False, scripts_pip := True\<rparr>)\<rparr>)"
  have same: "sys_platform (host ?w1) = sys_platform (host ?w2)"
    by (simp add: start_def)
  have differ: "files ?w1 \<noteq> files ?w2"
    by (simp add: start_def no_files_def)
  have one: "get_pip_exe ?w1 [''.venv''] = [''.venv'', ''bin'', ''pip'']"
    by (simp add: get_pip_exe_def os_path_join_def start_def linux_host_def)
  show ?thesis
    using get_pip_exe_platform_only [OF same, of "[''.venv'']"] same differ one
    by simp
qed

section \<open>Running a command on another operating system\<close>

text \<open>
  Claim C8. When \<open>os.name\<close> is neither \<open>posix\<close> nor \<open>nt\<close>, \<open>run_in_venv\<close> starts no process
  and changes no file for any command words. What it reports depends on the
  environment, which is looked for first: the unsupported-OS error when \<open>.venv\<close> exists,
  the no-environment error when it does not.
\<close>

theorem run_in_venv_other_os:
  assumes "os_name (host w) \<noteq> ''posix''" and "os_name (host w) \<noteq> ''nt''"
  shows "run_in_venv t commands w =
           (None, w\<lparr>terminal := terminal w @
                      [if dot_venv (files w) = None then NoVenvError else UnsupportedOS]\<rparr>)"
  using assms
  by (simp add: run_in_venv_def os_path_exists_def path_defs py_print_def venv_has_def Let_def
        split: option.splits)

theorem run_in_venv_other_os_witness:
  "os_name (host (start other_host (no_files\<lparr>dot_venv := Some (posix_venv False)\<rparr>))) \<noteq> ''posix'' \<and>
   os_name (host (start other_host (no_files\<lparr>dot_venv := Some (posix_venv False)\<rparr>))) \<noteq> ''nt'' \<and>
   run_in_venv example_tools [''python'', ''app.py'']
      (start other_host (no_files\<lparr>dot_venv := Some (posix_venv False)\<rparr>)) =
     (None, \<lparr>host = other_host, files = no_files\<lparr>dot_venv := Some (posix_venv False)\<rparr>,
             terminal = [UnsupportedOS], spawned = []\<rparr>)"
proof -
  let ?w = "start other_host (no_files\<lparr>dot_venv := Some (posix_venv False)\<rparr>)"
  have a: "os_name (host ?w) \<noteq> ''posix''"
    by (simp add: start_def other_host_def)
  have b: "os_name (host ?w) \<noteq> ''nt''"
    by (simp add: start_def other_host_def)
  show ?thesis
    using run_in_venv_other_os [OF a b, of example_tools "[''python'', ''app.py'']"] a b
    by (simp add: start_def no_files_def)
qed

text \<open>
  Claim C8, as stated, fails in a project without \<open>.venv\<close>: on an operating system
  that is neither POSIX nor Windows the error reported is the missing environment, and
  the unsupported-OS error is not printed.
\<close>

theorem run_in_venv_other_os_counterexample:
  "os_name (host (start other_host no_files)) \<noteq> ''posix'' \<and>
   os_name (host (start other_host no_files)) \<noteq> ''nt'' \<and>
   run_in_venv example_tools [''python'', ''app.py''] (start other_host no_files) =
     (None, \<lparr>host = other_host, files = no_files, terminal = [NoVenvError], spawned = []\<rparr>) \<and>
   UnsupportedOS \<notin> set (terminal (snd (run_in_venv example_tools [''python'', ''app.py'']
                                        (start other_host no_files))))"
  by (simp add: run_in_venv_def os_path_exists_def path_defs py_print_def start_def
        other_host_def no_files_def)

section \<open>The command without an implementation\<close>

text \<open>
  Claim C9. Dispatching \<open>set-python\<close> with a version argument reaches the call of
  \<open>set_python_version\<close>, a name the program does not define: the run ends with
  \<open>NameError\<close> and the world is as it was. No operation has run; in particular
  \<open>.noetry.yml\<close> is not written.
\<close>

theorem set_python_is_stub:
  "main t (prog # ''set-python'' # version # rest) w =
     (Some (NameError ''set_python_version''), w)"
  by (simp add: main_def)

theorem set_python_is_stub_witness:
  "main example_tools [''noetry'', ''set-python'', ''3.11'']
      (start linux_host (no_files\<lparr>noetry_yml := Some ''python_version: 3.9''\<rparr>)) =
     (Some (NameError ''set_python_version''),
      start linux_host (no_files\<lparr>noetry_yml := Some ''python_version: 3.9''\<rparr>))"
  using set_python_is_stub
    [of example_tools "''noetry''" "''3.11''" "[]"
      "start linux_host (no_files\<lparr>noetry_yml := Some ''python_version: 3.9''\<rparr>)"]
  by simp

section \<open>Importing a Poetry manifest: the merge\<close>

text \<open>
  Claim C3. Let \<open>pyproject.toml\<close> parse to a document whose runtime group
  (\<open>tool.poetry.dependencies\<close>) and development group (\<open>tool.poetry.dev-dependencies\<close>)
  are tables. \<open>convert_from_poetry\<close> writes to \<open>requirements.txt\<close> one line per entry
  of the merged mapping, and for a key \<open>k\<close> of the development group with constraint \<open>c\<close>
  the merged mapping has the entry \<open>(k, c)\<close> and no other entry for \<open>k\<close>: where the two
  groups share the key, the development group's constraint is the one written.
\<close>

theorem convert_development_wins:
  assumes load: "toml_load w = Inr doc"
      and deps: "poetry_group doc ''dependencies'' = Inr (TTable deps)"
      and dev: "poetry_group doc ''dev-dependencies'' = Inr (TTable dev)"
      and dd: "distinct (map fst deps)"
      and dv: "distinct (map fst dev)"
      and kc: "map_of dev k = Some c"
  shows "let merged = foldl dict_store (AList.delete ''python'' deps) dev
         in requirements_txt (files (snd (convert_from_poetry t w))) =
              Some (str_join [CHR 0x0A] (map (requirement_line t) merged)) \<and>
            (k, c) \<in> set merged \<and>
            (\<forall>c'. (k, c') \<in> set merged \<longrightarrow> c' = c)"
proof -
  let ?merged = "foldl dict_store (AList.delete ''python'' deps) dev"
  have m: "map_of ?merged k = Some c"
    using kc by (simp add: merged_map(1) [OF dd dv])
  have d: "distinct (map fst ?merged)"
    by (rule merged_map(2) [OF dd dv])
  have written: "requirements_txt (files (snd (convert_from_poetry t w))) =
                   Some (str_join [CHR 0x0A] (map (requirement_line t) ?merged))"
    by (rule convert_writes_manifest [OF load merged_dependencies_tables [OF deps dev]])
  have mem: "(k, c) \<in> set ?merged"
    using m by (rule map_of_SomeD)
  have only: "\<forall>c'. (k, c') \<in> set ?merged \<longrightarrow> c' = c"
  proof (intro allI impI)
    fix c'
    assume "(k, c') \<in> set ?merged"
    with d have "map_of ?merged k = Some c'"
      by (rule map_of_is_SomeI)
    with m show "c' = c" by simp
  qed
  show ?thesis
    unfolding Let_def using written mem only by blast
qed

theorem convert_development_wins_witness:
  "toml_load (start linux_host (no_files\<lparr>pyproject_toml := Some (Document (poetry_document
       [(''A'', TString ''^1.0''), (''B'', TString ''^2.0'')]
       [(''B'', TString ''^3.0''), (''C'', TString ''^1.0'')]))\<rparr>)) =
     Inr (TTable (poetry_document
       [(''A'', TString ''^1.0''), (''B'', TString ''^2.0'')]
       [(''B'', TString ''^3.0''), (''C'', TString ''^1.0'')])) \<and>
   map_of [(''A'', TString ''^1.0''), (''B'', TString ''^2.0'')] ''B'' = Some (TString ''^2.0'') \<and>
   map_of [(''B'', TString ''^3.0''), (''C'', TString ''^1.0'')] ''B'' = Some (TString ''^3.0'') \<and>
   requirements_txt (files (snd (convert_from_poetry example_tools
     (start linux_host (no_files\<lparr>pyproject_toml := Some (Document (poetry_document
       [(''A'', TString ''^1.0''), (''B'', TString ''^2.0'')]
       [(''B'', TString ''^3.0''), (''C'', TString ''^1.0'')]))\<rparr>))))) =
     Some (''A^1.0'' @ [CHR 0x0A] @ ''B^3.0'' @ [CHR 0x0A] @ ''C^1.0'')"
proof -
  let ?deps = "[(''A'', TString ''^1.0''), (''B'', TString ''^2.0'')]"
  let ?dev = "[(''B'', TString ''^3.0''), (''C'', TString ''^1.0'')]"
  let ?doc = "TTable (poetry_document ?deps ?dev)"
  let ?w = "start linux_host (no_files\<lparr>pyproject_toml := Some (Document (poetry_document ?deps ?dev))\<rparr>)"
  have load: "toml_load ?w = Inr ?doc"
    by (simp add: toml_load_def start_def no_files_def)
  have deps: "poetry_group ?doc ''dependencies'' = Inr (TTable ?deps)"
    by (simp add: poetry_group_def poetry_document_def)
  have dev: "poetry_group ?doc ''dev-dependencies'' = Inr (TTable ?dev)"
    by (simp add: poetry_group_def poetry_document_def)
  have dd: "distinct (map fst ?deps)" by simp
  have dv: "distinct (map fst ?dev)" by simp
  have run: "map_of ?deps ''B'' = Some (TString ''^2.0'')" by simp
  have kc: "map_of ?dev ''B'' = Some (TString ''^3.0'')" by simp
  have merged: "foldl dict_store (AList.delete ''python'' ?deps) ?dev =
                  [(''A'', TString ''^1.0''), (''B'', TString ''^3.0''), (''C'', TString ''^1.0'')]"
    by (simp add: dict_store_def)
  from convert_development_wins [OF load deps dev dd dv kc, of example_tools]
  have "requirements_txt (files (snd (convert_from_poetry example_tools ?w))) =
          Some (str_join [CHR 0x0A] (map (requirement_line example_tools)
            (foldl dict_store (AList.delete ''python'' ?deps) ?dev)))"
    unfolding Let_def by blast
  then have "requirements_txt (files (snd (convert_from_poetry example_tools ?w))) =
               Some (''A^1.0'' @ [CHR 0x0A] @ ''B^3.0'' @ [CHR 0x0A] @ ''C^1.0'')"
    unfolding merged by (simp add: requirement_line_def)
  with load run kc show ?thesis by blast
qed

section \<open>Importing a Poetry manifest: the interpreter's entry\<close>



end
